theory Spec2Isabelle
  imports Main "HOL-Library.AList"
begin

section \<open>Data model\<close>

text \<open>
  Exceptions of the Python source are values: every function that can raise returns
  \<open>error + 'a\<close>, with \<open>Inl\<close> carrying the exception.
\<close>

datatype error = ValueError | IndexError | KeyError | StopIteration

text \<open>
  A postfix program is a list of tokens (\<open>list[int | str]\<close> in the source): a literal is
  a string, an operator is its numeric id in the table \<open>_operators\<close>.
\<close>

datatype token = Lit string | Op nat

text \<open>
  A transition label is a string (the empty string is the epsilon marker) or, after the
  postfix combiners of \<open>parsing.py\<close> have run, a tuple of postfix tokens.
\<close>

datatype sym = Str string | Tup "token list"

abbreviation eps :: sym where
  "eps \<equiv> Str []"

text \<open>
  \<open>NFA.transitions\<close> is a \<open>defaultdict(set)\<close> keyed by \<open>(state, symbol)\<close>. A Python dict
  keeps its keys in insertion order, so it is an association list; \<open>AList.update\<close>
  overwrites a present key in place and appends an absent one, as the dict does.
\<close>

type_synonym trans = "((int \<times> sym) \<times> int set) list"

record nfa =
  states :: "int set"
  alphabet :: "sym set"
  transitions :: trans
  start_state :: int
  final_state :: int

text \<open>\<open>d[key]\<close> of a \<open>defaultdict(set)\<close> read for its value: the empty set when absent.\<close>

definition dd_get :: "trans \<Rightarrow> int \<times> sym \<Rightarrow> int set" where
  "dd_get d k = (case map_of d k of None \<Rightarrow> {} | Some v \<Rightarrow> v)"

text \<open>\<open>d[key].update(vs)\<close>: creates the entry when absent, then adds the destinations.\<close>

definition dd_add :: "trans \<Rightarrow> int \<times> sym \<Rightarrow> int set \<Rightarrow> trans" where
  "dd_add d k vs = AList.update k (dd_get d k \<union> vs) d"

text \<open>The edges a transition table stands for.\<close>

definition edges :: "trans \<Rightarrow> (int \<times> sym \<times> int) set" where
  "edges d = {(p, a, q). \<exists>D. map_of d (p, a) = Some D \<and> q \<in> D}"

section \<open>NFA: constructor and combinators (nfa.py)\<close>

text \<open>\<open>NFA.__init__\<close>: copies its arguments and validates the two distinguished states.\<close>

definition NFA :: "int set \<Rightarrow> sym set \<Rightarrow> trans \<Rightarrow> int \<Rightarrow> int \<Rightarrow> error + nfa" where
  "NFA sts alph tr start final =
     (if start \<notin> sts then Inl ValueError
      else if final \<notin> sts then Inl ValueError
      else Inr \<lparr>states = sts, alphabet = alph,
                transitions = fold (\<lambda>(k, dsts) d. dd_add d k dsts) tr [],
                start_state = start, final_state = final\<rparr>)"

definition nfa_copy :: "nfa \<Rightarrow> error + nfa" where
  "nfa_copy self = NFA (states self) (alphabet self) (transitions self)
                   (start_state self) (final_state self)"

text \<open>
  \<open>NFA.concat\<close>. \<open>max\<close> and \<open>min\<close> of an empty set raise \<open>ValueError\<close>. The receiver is
  mutated in place and returned; the model returns the new value.
\<close>

definition nfa_concat :: "nfa \<Rightarrow> nfa \<Rightarrow> error + nfa" where
  "nfa_concat self other =
     (if states self = {} \<or> states other = {} then Inl ValueError
      else
        let corr = Max (states self) - Min (states other) + 1;
            ren = (\<lambda>s. if s = start_state other then final_state self else s + corr)
        in Inr \<lparr>states = states self \<union> (\<lambda>s. s + corr) ` (states other - {start_state other}),
                 alphabet = alphabet self \<union> alphabet other,
                 transitions = fold (\<lambda>((src, a), dst) d. dd_add d (ren src, a) (ren ` dst))
                                    (transitions other) (transitions self),
                 start_state = start_state self,
                 final_state = final_state other + corr\<rparr>)"

text \<open>\<open>NFA.__add__\<close>: \<open>self.copy().concat(other)\<close>.\<close>

definition nfa_add :: "nfa \<Rightarrow> nfa \<Rightarrow> error + nfa" where
  "nfa_add self other = (case nfa_copy self of Inl e \<Rightarrow> Inl e | Inr c \<Rightarrow> nfa_concat c other)"

text \<open>\<open>NFA.union\<close>: the test for the final state comes first, as in the source.\<close>

definition nfa_union :: "nfa \<Rightarrow> nfa \<Rightarrow> error + nfa" where
  "nfa_union self other =
     (if states self = {} \<or> states other = {} then Inl ValueError
      else
        let corr = Max (states self) - Min (states other) + 1;
            ren = (\<lambda>s. if s = final_state other then final_state self
                        else if s = start_state other then start_state self else s + corr)
        in Inr \<lparr>states = states self \<union>
                          (\<lambda>s. s + corr) ` (states other - {start_state other, final_state other}),
                 alphabet = alphabet self \<union> alphabet other,
                 transitions = fold (\<lambda>((src, a), dsts) d. dd_add d (ren src, a) (ren ` dsts))
                                    (transitions other) (transitions self),
                 start_state = start_state self,
                 final_state = final_state self\<rparr>)"

text \<open>\<open>NFA.__or__\<close>: \<open>self.copy().union(other)\<close>.\<close>

definition nfa_or :: "nfa \<Rightarrow> nfa \<Rightarrow> error + nfa" where
  "nfa_or self other = (case nfa_copy self of Inl e \<Rightarrow> Inl e | Inr c \<Rightarrow> nfa_union c other)"

definition nfa_star :: "nfa \<Rightarrow> error + nfa" where
  "nfa_star self =
     (if states self = {} then Inl ValueError
      else
        let max_s = Max (states self);
            start = max_s + 1;
            final = max_s + 2;
            t1 = dd_add (transitions self) (start, eps) {start_state self, final};
            t2 = dd_add t1 (final_state self, eps) {start_state self, final}
        in Inr \<lparr>states = states self \<union> {start, final},
                 alphabet = alphabet self,
                 transitions = t2,
                 start_state = start,
                 final_state = final\<rparr>)"

definition nfa_plus :: "nfa \<Rightarrow> error + nfa" where
  "nfa_plus self =
     (if states self = {} then Inl ValueError
      else
        let max_s = Max (states self);
            start = max_s + 1;
            final = max_s + 2;
            t1 = dd_add (transitions self) (start, eps) {start_state self};
            t2 = dd_add t1 (final_state self, eps) {start_state self, final}
        in Inr \<lparr>states = states self \<union> {start, final},
                 alphabet = alphabet self,
                 transitions = t2,
                 start_state = start,
                 final_state = final\<rparr>)"

definition nfa_opt :: "nfa \<Rightarrow> nfa" where
  "nfa_opt self = self\<lparr>transitions :=
                      dd_add (transitions self) (start_state self, eps) {final_state self}\<rparr>"

section \<open>The operator table and the shunting-yard parser (parsing.py)\<close>

text \<open>
  \<open>_operators\<close>: id, arity, precedence and suffix flag of \<open>None\<close> (concatenation, id 0),
  \<open>|\<close> (1), \<open>*\<close> (2), \<open>+\<close> (3), \<open>?\<close> (4), \<open>(\<close> (5) and \<open>)\<close> (6). \<open>op_id\<close> is the lookup by
  symbol, where \<open>None\<close> stands for the synthetic concatenation.
\<close>

definition op_id :: "string option \<Rightarrow> nat option" where
  "op_id s =
     (if s = None then Some 0
      else if s = Some ''|'' then Some 1
      else if s = Some ''*'' then Some 2
      else if s = Some ''+'' then Some 3
      else if s = Some ''?'' then Some 4
      else if s = Some ''('' then Some 5
      else if s = Some '')'' then Some 6
      else None)"

definition num_args :: "nat \<Rightarrow> nat option" where
  "num_args i = (if i \<le> 1 then Some 2 else if i \<le> 4 then Some 1
                 else if i \<le> 6 then Some 0 else None)"

text \<open>Read only for ids that the parser pushed, which are all in the table.\<close>

definition precedence :: "nat \<Rightarrow> nat" where
  "precedence i = (if i = 0 then 2 else if i = 1 then 1 else if i \<le> 4 then 3 else 0)"

definition op_suffix :: "nat \<Rightarrow> bool" where
  "op_suffix i = (2 \<le> i \<and> i \<le> 4)"

text \<open>
  The operator stack is a list with its top at the head. \<open>pop_to_paren\<close> is the loop
  \<open>while stack[-1] != 5: postfix_output.append(stack.pop())\<close> followed by \<open>stack.pop()\<close>:
  \<open>stack[-1]\<close> on the empty stack raises \<open>IndexError\<close>.
\<close>

fun pop_to_paren :: "nat list \<Rightarrow> token list \<Rightarrow> error + (nat list \<times> token list)" where
  "pop_to_paren [] out = Inl IndexError"
| "pop_to_paren (x # st) out =
     (if x = 5 then Inr (st, out) else pop_to_paren st (out @ [Op x]))"

text \<open>
  \<open>while len(stack) > 0 and (type(stack[-1]) != int or
  _operators[stack[-1]].precedence > op_param.precedence)\<close>: the stack holds ints only.
\<close>

fun pop_higher :: "nat \<Rightarrow> nat list \<Rightarrow> token list \<Rightarrow> nat list \<times> token list" where
  "pop_higher p [] out = ([], out)"
| "pop_higher p (x # st) out =
     (if precedence x > p then pop_higher p st (out @ [Op x]) else (x # st, out))"

text \<open>
  \<open>while regex[current_pos - 1] != '>': current_pos += 1\<close>, which raises \<open>IndexError\<close>
  when it runs off the end of the string.
\<close>

function scan_gt :: "string \<Rightarrow> nat \<Rightarrow> error + nat" where
  "scan_gt regex pos =
     (if \<not> pos - 1 < length regex then Inl IndexError
      else if regex ! (pos - 1) = CHR ''>'' then Inr pos
      else scan_gt regex (pos + 1))"
  by pat_completeness auto
termination
  by (relation "measure (\<lambda>(regex, pos). Suc (length regex) - pos)") auto

declare scan_gt.simps [simp del]

text \<open>The code after \<open>stack.append(op_param.id)\<close> in the branch for \<open>(\<close>.\<close>

definition skip_group_prefix :: "string \<Rightarrow> nat \<Rightarrow> error + nat" where
  "skip_group_prefix regex pos =
     (if \<not> pos < length regex then Inl IndexError
      else if regex ! pos \<noteq> CHR ''?'' then Inr pos
      else if \<not> pos + 1 < length regex then Inl IndexError
      else if regex ! (pos + 1) \<noteq> CHR ''<'' then Inr (pos + 2)
      else if \<not> pos + 2 < length regex then Inl IndexError
      else if regex ! (pos + 2) \<in> {CHR ''!'', CHR ''=''} then Inr (pos + 2)
      else scan_gt regex (pos + 2))"

text \<open>
  One iteration of the main loop of \<open>parse_regex\<close>, entered with \<open>pos < len(regex)\<close>.
  The state is the operator stack, the output, \<open>concatenate_next\<close> and \<open>current_pos\<close>.
\<close>

definition parse_step ::
  "string \<Rightarrow> nat list \<Rightarrow> token list \<Rightarrow> bool \<Rightarrow> nat
     \<Rightarrow> error + (nat list \<times> token list \<times> bool \<times> nat)" where
  "parse_step regex stack out cn pos =
     (let c = regex ! pos in
      if c = CHR 0x5C \<and> \<not> pos + 1 < length regex then Inl IndexError
      else
        let escape = (c = CHR 0x5C);
            pos1 = (if escape then pos + 1 else pos);
            sym0 = (if escape then [c, regex ! pos1] else [c]);
            insert_concat = (cn \<and> (sym0 = ''('' \<or> op_id (Some sym0) = None));
            sym = (if insert_concat then None else Some sym0);
            pos2 = (if insert_concat then pos1 else pos1 + 1)
        in
          if sym = Some ''('' then
            (case skip_group_prefix regex pos2 of
               Inl e \<Rightarrow> Inl e
             | Inr pos3 \<Rightarrow> Inr (5 # stack, out, False, pos3))
          else if sym = Some '')'' then
            (case pop_to_paren stack out of
               Inl e \<Rightarrow> Inl e
             | Inr (stack', out') \<Rightarrow> Inr (stack', out', True, pos2))
          else
            (case op_id sym of
               Some i \<Rightarrow>
                 (case pop_higher (precedence i) stack out of
                    (stack', out') \<Rightarrow>
                      if op_suffix i then Inr (stack', out' @ [Op i], True, pos2)
                      else Inr (i # stack', out', False, pos2))
             | None \<Rightarrow> Inr (stack, out @ [Lit (if escape then drop 1 sym0 else sym0)], True, pos2)))"

text \<open>
  The main loop advances \<open>current_pos\<close> or, when it inserts a concatenation, clears
  \<open>concatenate_next\<close>; this is the measure that makes it terminate.
\<close>

definition parse_measure :: "string \<Rightarrow> bool \<Rightarrow> nat \<Rightarrow> nat" where
  "parse_measure regex cn pos = 2 * (length regex - pos) + (if cn then 1 else 0)"

lemma scan_gt_ge: "scan_gt regex pos = Inr pos' \<Longrightarrow> pos \<le> pos'"
proof (induction regex pos rule: scan_gt.induct)
  case (1 regex pos)
  then show ?case
    by (subst (asm) scan_gt.simps) (auto split: if_splits)
qed

lemma skip_group_prefix_ge: "skip_group_prefix regex pos = Inr pos' \<Longrightarrow> pos \<le> pos'"
  by (auto simp: skip_group_prefix_def split: if_splits dest: scan_gt_ge)

lemma op_id_None: "op_id None = Some 0"
  by (simp add: op_id_def)

lemma op_suffix_0: "\<not> op_suffix 0"
  by (simp add: op_suffix_def)

lemma parse_step_decreases:
  assumes "pos < length regex"
    and "parse_step regex stack out cn pos = Inr (stack', out', cn', pos')"
  shows "parse_measure regex cn' pos' < parse_measure regex cn pos"
  using assms
  by (auto simp: parse_step_def parse_measure_def Let_def op_id_None op_suffix_0
           split: if_splits sum.splits option.splits prod.splits
           dest!: skip_group_prefix_ge)

function parse_loop ::
  "string \<Rightarrow> nat list \<Rightarrow> token list \<Rightarrow> bool \<Rightarrow> nat \<Rightarrow> error + token list" where
  "parse_loop regex stack out cn pos =
     (if \<not> pos < length regex then Inr (out @ map Op stack)
      else
        (case parse_step regex stack out cn pos of
           Inl e \<Rightarrow> Inl e
         | Inr (stack', out', cn', pos') \<Rightarrow> parse_loop regex stack' out' cn' pos'))"
  by pat_completeness auto
termination
  by (relation "measure (\<lambda>(regex, stack, out, cn, pos). parse_measure regex cn pos)")
     (auto dest: parse_step_decreases)

declare parse_loop.simps [simp del]

text \<open>
  \<open>parse_regex\<close>. After the loop the remaining operators are popped onto the output,
  whatever they are.
\<close>

definition parse_regex :: "string \<Rightarrow> error + token list" where
  "parse_regex regex = parse_loop regex [] [] False 0"

section \<open>The postfix compiler (parsing.py)\<close>

text \<open>The automaton of a literal: \<open>NFA({0, 1}, {sym}, {(0, sym): {1}}, 0, 1)\<close>.\<close>

definition literal_nfa :: "string \<Rightarrow> error + nfa" where
  "literal_nfa s = NFA {0, 1} {Str s} [((0, Str s), {1})] 0 1"

text \<open>
  One token of \<open>construct_nfa\<close>. The stack has its top at the head, so \<open>syms[0]\<close> is the
  head. An id outside the table raises \<open>KeyError\<close>, a pop from the empty stack
  \<open>IndexError\<close>; the ids 5 and 6 pop nothing and push nothing.
\<close>

fun apply_token :: "token \<Rightarrow> nfa list \<Rightarrow> error + nfa list" where
  "apply_token (Lit s) stack =
     (case literal_nfa s of Inl e \<Rightarrow> Inl e | Inr a \<Rightarrow> Inr (a # stack))"
| "apply_token (Op i) stack =
     (case num_args i of
        None \<Rightarrow> Inl KeyError
      | Some n \<Rightarrow>
          if length stack < n then Inl IndexError
          else
            let syms = take n stack; rest = drop n stack in
            if i = 0 then
              (case nfa_add (syms ! 1) (syms ! 0) of Inl e \<Rightarrow> Inl e | Inr r \<Rightarrow> Inr (r # rest))
            else if i = 1 then
              (case nfa_or (syms ! 1) (syms ! 0) of Inl e \<Rightarrow> Inl e | Inr r \<Rightarrow> Inr (r # rest))
            else if i = 2 then
              (case nfa_star (syms ! 0) of Inl e \<Rightarrow> Inl e | Inr r \<Rightarrow> Inr (r # rest))
            else if i = 3 then
              (case nfa_plus (syms ! 0) of Inl e \<Rightarrow> Inl e | Inr r \<Rightarrow> Inr (r # rest))
            else if i = 4 then Inr (nfa_opt (syms ! 0) # rest)
            else Inr rest)"

fun run_postfix :: "token list \<Rightarrow> nfa list \<Rightarrow> error + nfa list" where
  "run_postfix [] stack = Inr stack"
| "run_postfix (t # ts) stack =
     (case apply_token t stack of Inl e \<Rightarrow> Inl e | Inr stack' \<Rightarrow> run_postfix ts stack')"

definition construct_nfa :: "token list \<Rightarrow> error + nfa" where
  "construct_nfa postfix =
     (if postfix = [] then NFA {0} {} [] 0 0
      else
        (case run_postfix postfix [] of
           Inl e \<Rightarrow> Inl e
         | Inr stack \<Rightarrow> if length stack \<noteq> 1 then Inl ValueError else Inr (stack ! 0)))"

definition parse_regex_as_nfa :: "string \<Rightarrow> error + nfa" where
  "parse_regex_as_nfa regex =
     (case parse_regex regex of Inl e \<Rightarrow> Inl e | Inr postfix \<Rightarrow> construct_nfa postfix)"

subsection \<open>Parenthesis balance of a regex string\<close>




section \<open>State elimination: \<open>NFA.rip\<close> (nfa.py)\<close>

text \<open>
  The first loop of \<open>rip\<close>: the outgoing transitions of the ripped state, keyed by symbol
  (a dict, so an association list), and the set of non-epsilon labels of its self-loops.
\<close>

definition rip_out :: "trans \<Rightarrow> int \<Rightarrow> (sym \<times> int set) list \<times> sym set" where
  "rip_out tr state =
     fold (\<lambda>((src, a), dsts) (out, loops).
             if src = state then
               (if state \<in> dsts then
                  (if card dsts > 1 then AList.update a (dsts - {state}) out else out,
                   if a \<noteq> eps then insert a loops else loops)
                else (AList.update a dsts out, loops))
             else (out, loops))
          tr ([], {})"

text \<open>
  The inner loop over \<open>outgoing_transitions\<close> for one incoming key \<open>(src, a)\<close>, in safe
  mode: \<open>None\<close> is the early \<open>return None\<close>.
\<close>

fun rip_inner_safe :: "int \<Rightarrow> sym \<Rightarrow> (sym \<times> int set) list \<Rightarrow> trans \<Rightarrow> trans option" where
  "rip_inner_safe src a [] t = Some t"
| "rip_inner_safe src a ((out_sym, out_dsts) # rest) t =
     (if a \<noteq> eps \<and> out_sym \<noteq> eps then None
      else rip_inner_safe src a rest (dd_add t (src, if a = eps then out_sym else a) out_dsts))"

text \<open>
  The same loop when \<open>safe\<close> is false: the label comes from the combiner, and a new label
  is added to the alphabet of the receiver, in place.
\<close>

fun rip_inner :: "(sym \<Rightarrow> sym set \<Rightarrow> sym \<Rightarrow> sym) \<Rightarrow> sym set \<Rightarrow> int \<Rightarrow> sym \<Rightarrow>
    (sym \<times> int set) list \<Rightarrow> sym set \<times> trans \<Rightarrow> sym set \<times> trans" where
  "rip_inner combiner loops src a [] (alph, t) = (alph, t)"
| "rip_inner combiner loops src a ((out_sym, out_dsts) # rest) (alph, t) =
     (let new_sym = combiner a loops out_sym;
          alph' = (if map_of t (src, new_sym) = None \<and> new_sym \<noteq> eps then insert new_sym alph
                   else alph)
      in rip_inner combiner loops src a rest (alph', dd_add t (src, new_sym) out_dsts))"

text \<open>
  The main loop over \<open>self.transitions.items()\<close>. Its state is the receiver (\<open>self\<close>, whose
  alphabet and destination sets the unsafe branch mutates in place) and the new transition
  table; the second component of the result is \<open>None\<close> after \<open>return None\<close>.
\<close>

fun rip_loop :: "bool \<Rightarrow> (sym \<Rightarrow> sym set \<Rightarrow> sym \<Rightarrow> sym) \<Rightarrow> int \<Rightarrow> (sym \<times> int set) list \<Rightarrow>
    sym set \<Rightarrow> trans \<Rightarrow> nfa \<Rightarrow> trans \<Rightarrow> nfa \<times> trans option" where
  "rip_loop safe combiner state out loops [] self t = (self, Some t)"
| "rip_loop safe combiner state out loops (((src, a), dsts) # items) self t =
     (if src = state then rip_loop safe combiner state out loops items self t
      else if state \<in> dsts then
        (if safe then
           (case rip_inner_safe src a out t of
              None \<Rightarrow> (self, None)
            | Some t' \<Rightarrow>
                let dsts' = dsts - {state}
                in rip_loop safe combiner state out loops items self
                     (if dsts' \<noteq> {} then dd_add t' (src, a) dsts' else t'))
         else
           (case rip_inner combiner loops src a out (alphabet self, t) of
              (alph', t') \<Rightarrow>
                let dsts' = dsts - {state};
                    self' = self\<lparr>alphabet := alph',
                                 transitions := AList.update (src, a) dsts' (transitions self)\<rparr>
                in rip_loop safe combiner state out loops items self'
                     (if dsts' \<noteq> {} then dd_add t' (src, a) dsts' else t')))
      else rip_loop safe combiner state out loops items self
             (if dsts \<noteq> {} then dd_add t (src, a) dsts else t))"

text \<open>
  \<open>NFA.rip\<close>. The result is the returned value (\<open>None\<close> or the receiver itself) together
  with the receiver as the call leaves it. \<open>self.states.remove(state)\<close> raises \<open>KeyError\<close>
  when the state is absent.
\<close>

definition rip :: "nfa \<Rightarrow> int \<Rightarrow> bool \<Rightarrow> (sym \<Rightarrow> sym set \<Rightarrow> sym \<Rightarrow> sym) \<Rightarrow>
    error + (nfa option \<times> nfa)" where
  "rip self state safe combiner =
     (if state = start_state self \<or> state = final_state self then Inl ValueError
      else
        (case rip_out (transitions self) state of
           (out, loops) \<Rightarrow>
             (case rip_loop safe combiner state out loops (transitions self) self [] of
                (self', None) \<Rightarrow> Inr (None, self')
              | (self', Some t) \<Rightarrow>
                  if state \<notin> states self' then Inl KeyError
                  else
                    let r = self'\<lparr>states := states self' - {state}, transitions := t\<rparr>
                    in Inr (Some r, r))))"

text \<open>\<open>_default_rip_combiner\<close> is not needed in safe mode; any combiner can be passed.\<close>

section \<open>Well-formed automata\<close>

text \<open>
  A transition table lies within a set of states when its keys are distinct (as in any
  dict), every source and every destination is in the set, and no key is bound to the empty
  set. An automaton is well formed when its state set is finite and contains the start and
  the final state, and its transitions lie within its states.
\<close>

definition trans_ok :: "int set \<Rightarrow> trans \<Rightarrow> bool" where
  "trans_ok S t = (distinct (map fst t) \<and> (\<forall>((p, a), D) \<in> set t. p \<in> S \<and> D \<subseteq> S \<and> D \<noteq> {}))"

definition wf_nfa :: "nfa \<Rightarrow> bool" where
  "wf_nfa A = (finite (states A) \<and> start_state A \<in> states A \<and> final_state A \<in> states A \<and>
               trans_ok (states A) (transitions A))"

text \<open>
  The condition under which safe elimination gives up: an edge into the state from another
  state and an edge out of it to another state, both with a label other than epsilon. An
  entry \<open>(p, a) \<mapsto> D\<close> of the dict holds the edges from \<open>p\<close> with label \<open>a\<close> to the states of \<open>D\<close>.
\<close>

definition rip_conflict :: "nfa \<Rightarrow> int \<Rightarrow> bool" where
  "rip_conflict A q =
     (\<exists>((p, a), D) \<in> set (transitions A). \<exists>((q', b), E) \<in> set (transitions A).
         p \<noteq> q \<and> q \<in> D \<and> a \<noteq> eps \<and> q' = q \<and> E - {q} \<noteq> {} \<and> b \<noteq> eps)"

section \<open>Example automata\<close>

text \<open>Three states in a row: \<open>0 \<midarrow>a\<rightarrow> 1 \<midarrow>b\<rightarrow> 2\<close>.\<close>

definition abc_chain :: nfa where
  "abc_chain = \<lparr>states = {0, 1, 2}, alphabet = {Str ''a'', Str ''b''},
                transitions = [((0, Str ''a''), {1}), ((1, Str ''b''), {2})],
                start_state = 0, final_state = 2\<rparr>"

section \<open>Properties\<close>

subsection \<open>Parser: unbalanced parentheses\<close>




lemma pop_to_paren_no5:
  "count_list st 5 = 0 \<Longrightarrow> pop_to_paren st out = Inl IndexError"
  by (induction st out rule: pop_to_paren.induct) (auto split: if_splits)










lemmas parse_eval = parse_regex_def parse_loop.simps parse_step_def skip_group_prefix_def
  scan_gt.simps op_id_def precedence_def op_suffix_def Let_def



subsection \<open>Round trip: an escaped operator after a literal\<close>

lemmas nfa_eval = parse_regex_as_nfa_def construct_nfa_def literal_nfa_def NFA_def nfa_star_def
  nfa_add_def nfa_copy_def nfa_concat_def dd_add_def dd_get_def num_args_def

text \<open>
  Claim C1 asks that the automata compiled from a regex agree on every string, for every
  regex of the supported syntax, which includes a backslash-escaped character standing for
  itself. For the regex \<open>a\*\<close> (the letter \<open>a\<close> followed by an escaped star) no automaton is
  compiled at all: when a concatenation is inserted before an escaped character, the parser
  steps back onto the character after the backslash and reads it again, unescaped. The
  postfix program is \<open>['a', 2, 0]\<close>, and \<open>construct_nfa\<close> pops from an empty stack at the
  concatenation.
\<close>

theorem escaped_star_after_literal:
  "parse_regex [CHR ''a'', CHR 0x5C, CHR ''*''] = Inr [Lit ''a'', Op 2, Op 0] \<and>
   parse_regex_as_nfa [CHR ''a'', CHR 0x5C, CHR ''*''] = Inl IndexError"
  by (simp add: parse_eval nfa_eval)

subsection \<open>Safe elimination is atomic\<close>

lemma rip_loop_safe_receiver:
  "fst (rip_loop True combiner state out loops items self t) = self"
  by (induction items arbitrary: t) (auto split: option.splits simp: Let_def)

lemma abc_chain_rip: "rip abc_chain 1 True (\<lambda>a loops b. a) = Inr (None, abc_chain)"
  by (simp add: rip_def rip_out_def abc_chain_def)

text \<open>
  Claim C10. Whenever \<open>rip(q, safe=True)\<close> returns \<open>None\<close>, the receiver is left as it was
  before the call: the automaton \<open>self'\<close> that the call leaves behind is the automaton \<open>self\<close>
  it was called on, so its states, alphabet, transitions, start state and final state are
  all unchanged.
\<close>

theorem rip_safe_none_unchanged:
  assumes "rip self state True combiner = Inr (None, self')"
  shows "self' = self"
proof -
  obtain out loops where o: "rip_out (transitions self) state = (out, loops)"
    by (cases "rip_out (transitions self) state")
  obtain s' r where l: "rip_loop True combiner state out loops (transitions self) self [] = (s', r)"
    by (cases "rip_loop True combiner state out loops (transitions self) self []")
  have "s' = self"
    using rip_loop_safe_receiver[of combiner state out loops "transitions self" self "[]"] l by simp
  then show ?thesis using assms o l
    by (auto simp: rip_def Let_def split: if_splits option.splits)
qed

text \<open>Witness for C10: ripping the middle state of \<open>abc_chain\<close> gives up and changes nothing.\<close>

theorem rip_safe_none_unchanged_witness:
  "rip abc_chain 1 True (\<lambda>a loops b. a) = Inr (None, abc_chain) \<and> abc_chain = abc_chain"
  using rip_safe_none_unchanged[OF abc_chain_rip] abc_chain_rip by simp

end
